theory Spec2Isabelle
  imports Complex_Main "HOL-Library.Monad_Syntax"
begin

section \<open>Python values and exceptions\<close>

text \<open>
  The program is \<^verbatim>\<open>pnl_gui.py\<close>: class \<^verbatim>\<open>TradingJournal\<close> with \<^verbatim>\<open>load_data\<close>,
  \<^verbatim>\<open>display_trades\<close> and \<^verbatim>\<open>display_summary\<close>. Every \<^verbatim>\<open>raise\<close> of the program and of
  the library calls it makes is a value of \<open>exn\<close>; a computation that may raise returns
  \<open>exn + 'a\<close>. The payload of an exception is the datum its message is built from.
\<close>

datatype exn =
    FileNotFoundError string
  | ValueError string
  | KeyError string
  | AttributeError string
  | ZeroDivisionError
  | OtherException string

text \<open>
  A Python \<^verbatim>\<open>float\<close>. A finite value is kept as the exact rational it denotes: the
  rounding to binary64 is not modelled. Infinities and NaN are values of their own,
  since \<^verbatim>\<open>float()\<close> produces them and comparisons treat them specially.
\<close>

datatype pyfloat = Fin rat | PInf | NInf | NaN

fun ge0 :: "pyfloat \<Rightarrow> bool" where
  "ge0 (Fin q) = (0 \<le> q)"
| "ge0 PInf = True"
| "ge0 NInf = False"
| "ge0 NaN = False"

fun gt0 :: "pyfloat \<Rightarrow> bool" where
  "gt0 (Fin q) = (0 < q)"
| "gt0 PInf = True"
| "gt0 NInf = False"
| "gt0 NaN = False"

fun lt0 :: "pyfloat \<Rightarrow> bool" where
  "lt0 (Fin q) = (q < 0)"
| "lt0 PInf = False"
| "lt0 NInf = True"
| "lt0 NaN = False"

fun isnan :: "pyfloat \<Rightarrow> bool" where
  "isnan NaN = True"
| "isnan _ = False"

fun fadd :: "pyfloat \<Rightarrow> pyfloat \<Rightarrow> pyfloat" where
  "fadd NaN _ = NaN"
| "fadd _ NaN = NaN"
| "fadd PInf NInf = NaN"
| "fadd NInf PInf = NaN"
| "fadd PInf _ = PInf"
| "fadd _ PInf = PInf"
| "fadd NInf _ = NInf"
| "fadd _ NInf = NInf"
| "fadd (Fin a) (Fin b) = Fin (a + b)"

section \<open>Strings: \<^verbatim>\<open>strip\<close>, \<^verbatim>\<open>replace\<close>, \<^verbatim>\<open>lower\<close>\<close>

text \<open>
  A string is a list of bytes. Whitespace, digits and letter case are the ASCII ones:
  \<^verbatim>\<open>str.strip\<close> and \<^verbatim>\<open>float\<close> trim the characters 9 to 13 and 28 to 32.
\<close>

definition is_space :: "char \<Rightarrow> bool" where
  "is_space c = (let n = (of_char c :: nat) in (9 \<le> n \<and> n \<le> 13) \<or> (28 \<le> n \<and> n \<le> 32))"

definition py_strip :: "string \<Rightarrow> string" where
  "py_strip s = rev (dropWhile is_space (rev (dropWhile is_space s)))"

definition remove_char :: "char \<Rightarrow> string \<Rightarrow> string" where
  "remove_char x s = filter (\<lambda>c. c \<noteq> x) s"

definition py_lower_char :: "char \<Rightarrow> char" where
  "py_lower_char c =
     (let n = (of_char c :: nat) in if 65 \<le> n \<and> n \<le> 90 then char_of (n + 32) else c)"

definition py_lower :: "string \<Rightarrow> string" where
  "py_lower s = map py_lower_char s"

section \<open>The builtin \<^verbatim>\<open>float(str)\<close>\<close>

text \<open>
  \<^verbatim>\<open>float\<close> trims whitespace and accepts, after an optional sign, \<^verbatim>\<open>inf\<close>,
  \<^verbatim>\<open>infinity\<close> or \<^verbatim>\<open>nan\<close> in any case, or a number: digit groups (single underscores
  allowed between digits) with an optional point and an optional exponent. Anything
  else raises ValueError.
\<close>

definition is_digit :: "char \<Rightarrow> bool" where
  "is_digit c = (let n = (of_char c :: nat) in 48 \<le> n \<and> n \<le> 57)"

definition digit_val :: "char \<Rightarrow> nat" where
  "digit_val c = of_char c - 48"

fun no_double_underscore :: "string \<Rightarrow> bool" where
  "no_double_underscore (a # b # cs) =
     (\<not> (a = CHR ''_'' \<and> b = CHR ''_'') \<and> no_double_underscore (b # cs))"
| "no_double_underscore _ = True"

definition valid_digitpart :: "string \<Rightarrow> bool" where
  "valid_digitpart s =
     (s \<noteq> [] \<and> list_all (\<lambda>c. is_digit c \<or> c = CHR ''_'') s \<and> is_digit (hd s) \<and>
      is_digit (last s) \<and> no_double_underscore s)"

definition digits_val :: "string \<Rightarrow> nat" where
  "digits_val s = foldl (\<lambda>a c. 10 * a + digit_val c) 0 (filter is_digit s)"

definition unsigned_exponent :: "string \<Rightarrow> int option" where
  "unsigned_exponent s = (if valid_digitpart s then Some (int (digits_val s)) else None)"

definition parse_exponent :: "string \<Rightarrow> int option" where
  "parse_exponent s =
     (case s of
        [] \<Rightarrow> None
      | c # r \<Rightarrow>
          if c = CHR ''+'' then unsigned_exponent r
          else if c = CHR ''-'' then map_option uminus (unsigned_exponent r)
          else unsigned_exponent s)"

definition fraction_val :: "string \<Rightarrow> rat" where
  "fraction_val s = of_nat (digits_val s) / 10 ^ length (filter is_digit s)"

definition parse_mantissa :: "string \<Rightarrow> rat option" where
  "parse_mantissa m =
     (let ip = takeWhile (\<lambda>c. c \<noteq> CHR ''.'') m;
          r = dropWhile (\<lambda>c. c \<noteq> CHR ''.'') m
      in case r of
           [] \<Rightarrow> if valid_digitpart ip then Some (of_nat (digits_val ip)) else None
         | _ # fp \<Rightarrow>
             if ip = [] then (if valid_digitpart fp then Some (fraction_val fp) else None)
             else if valid_digitpart ip \<and> (fp = [] \<or> valid_digitpart fp)
               then Some (of_nat (digits_val ip) + fraction_val fp)
             else None)"

definition scale10 :: "rat \<Rightarrow> int \<Rightarrow> rat" where
  "scale10 m e = (if 0 \<le> e then m * 10 ^ nat e else m / 10 ^ nat (- e))"

definition is_exp_mark :: "char \<Rightarrow> bool" where
  "is_exp_mark c = (c = CHR ''e'' \<or> c = CHR ''E'')"

definition parse_number :: "string \<Rightarrow> rat option" where
  "parse_number s =
     (let m = takeWhile (\<lambda>c. \<not> is_exp_mark c) s;
          r = dropWhile (\<lambda>c. \<not> is_exp_mark c) s;
          ex = (case r of [] \<Rightarrow> Some 0 | _ # e \<Rightarrow> parse_exponent e)
      in case parse_mantissa m of
           None \<Rightarrow> None
         | Some q \<Rightarrow> (case ex of None \<Rightarrow> None | Some e \<Rightarrow> Some (scale10 q e)))"

definition split_sign :: "string \<Rightarrow> bool \<times> string" where
  "split_sign t =
     (case t of
        [] \<Rightarrow> (False, [])
      | c # r \<Rightarrow>
          if c = CHR ''-'' then (True, r)
          else if c = CHR ''+'' then (False, r)
          else (False, t))"

definition py_float :: "string \<Rightarrow> exn + pyfloat" where
  "py_float s =
     (let t = py_strip s;
          neg = fst (split_sign t);
          u = snd (split_sign t);
          w = py_lower u
      in if w = ''inf'' \<or> w = ''infinity'' then Inr (if neg then NInf else PInf)
         else if w = ''nan'' then Inr NaN
         else case parse_number u of
                None \<Rightarrow> Inl (ValueError s)
              | Some q \<Rightarrow> Inr (Fin (if neg then - q else q)))"

section \<open>Cells, frames and \<^verbatim>\<open>str()\<close>\<close>

text \<open>
  A pandas DataFrame as the program uses it: a header and rows of cells. A cell is a
  string, an integer, a float (a blank cell is the float NaN), a Timestamp (kept as its
  calendar date) or NaT.
\<close>

datatype timestamp = Timestamp nat nat nat

datatype cell = CStr string | CInt int | CFloat pyfloat | CDate timestamp | CNaT

record frame =
  columns :: "string list"
  rows :: "cell list list"

definition empty_frame :: frame where
  "empty_frame = \<lparr>columns = [], rows = []\<rparr>"

definition frame_empty :: "frame \<Rightarrow> bool" where
  "frame_empty fr = (columns fr = [] \<or> rows fr = [])"

fun col_index :: "string list \<Rightarrow> string \<Rightarrow> nat option" where
  "col_index [] n = None"
| "col_index (c # cs) n = (if c = n then Some 0 else map_option Suc (col_index cs n))"

definition cell_at :: "cell list \<Rightarrow> nat \<Rightarrow> cell" where
  "cell_at row i = (if i < length row then row ! i else CFloat NaN)"

definition row_get :: "string list \<Rightarrow> cell list \<Rightarrow> string \<Rightarrow> exn + cell" where
  "row_get cols row name =
     (case col_index cols name of
        None \<Rightarrow> Inl (KeyError name)
      | Some i \<Rightarrow> Inr (cell_at row i))"

definition get_column :: "frame \<Rightarrow> string \<Rightarrow> exn + cell list" where
  "get_column fr name =
     (case col_index (columns fr) name of
        None \<Rightarrow> Inl (KeyError name)
      | Some i \<Rightarrow> Inr (map (\<lambda>row. cell_at row i) (rows fr)))"

definition set_column :: "frame \<Rightarrow> string \<Rightarrow> cell list \<Rightarrow> frame" where
  "set_column fr name vals =
     (case col_index (columns fr) name of
        None \<Rightarrow> fr
      | Some i \<Rightarrow> fr\<lparr>rows := map (\<lambda>(row, v). row[i := v]) (zip (rows fr) vals)\<rparr>)"

definition digit_char :: "nat \<Rightarrow> char" where
  "digit_char n = char_of (48 + n)"

fun str_nat :: "nat \<Rightarrow> string" where
  "str_nat n = (if n < 10 then [digit_char n] else str_nat (n div 10) @ [digit_char (n mod 10)])"

declare str_nat.simps [simp del]

definition str_int :: "int \<Rightarrow> string" where
  "str_int i = (if i < 0 then CHR ''-'' # str_nat (nat (- i)) else str_nat (nat i))"

definition zero_pad :: "nat \<Rightarrow> string \<Rightarrow> string" where
  "zero_pad w s = replicate (w - length s) CHR ''0'' @ s"

fun strftime_ymd :: "timestamp \<Rightarrow> string" where
  "strftime_ymd (Timestamp y m d) =
     zero_pad 4 (str_nat y) @ ''-'' @ zero_pad 2 (str_nat m) @ ''-'' @ zero_pad 2 (str_nat d)"

text \<open>
  \<^verbatim>\<open>str(x)\<close> of a cell. The digits of a finite float's \<^verbatim>\<open>repr\<close> are not modelled: they
  are the parameter \<open>repr_fin\<close>.
\<close>

fun str_float :: "(rat \<Rightarrow> string) \<Rightarrow> pyfloat \<Rightarrow> string" where
  "str_float repr_fin (Fin q) = repr_fin q"
| "str_float repr_fin PInf = ''inf''"
| "str_float repr_fin NInf = ''-inf''"
| "str_float repr_fin NaN = ''nan''"

fun py_str :: "(rat \<Rightarrow> string) \<Rightarrow> cell \<Rightarrow> string" where
  "py_str repr_fin (CStr s) = s"
| "py_str repr_fin (CInt i) = str_int i"
| "py_str repr_fin (CFloat v) = str_float repr_fin v"
| "py_str repr_fin (CDate t) = strftime_ymd t @ '' 00:00:00''"
| "py_str repr_fin CNaT = ''NaT''"

fun strftime :: "cell \<Rightarrow> exn + string" where
  "strftime (CDate t) = Inr (strftime_ymd t)"
| "strftime CNaT = Inl (ValueError ''NaTType does not support strftime'')"
| "strftime (CStr s) = Inl (AttributeError ''strftime'')"
| "strftime (CInt i) = Inl (AttributeError ''strftime'')"
| "strftime (CFloat v) = Inl (AttributeError ''strftime'')"

section \<open>The environment: files and the pandas readers\<close>

text \<open>
  \<open>files\<close> maps a path to the content of the file there, \<open>None\<close> when no file exists.
  \<^verbatim>\<open>pd.read_csv\<close> and \<^verbatim>\<open>pd.read_excel\<close> raise FileNotFoundError on a missing file and
  otherwise parse the content, which may raise as well. \<^verbatim>\<open>pd.to_datetime\<close> converts a
  column value by value (\<open>None\<close> is NaT) and raises a ValueError, with the message
  \<open>parse_date\<close> gives, at the first value it cannot parse; its inference of one format
  for the whole column is not modelled.
\<close>

record env =
  files :: "string \<Rightarrow> string option"
  csv_parse :: "string \<Rightarrow> exn + frame"
  excel_parse :: "string \<Rightarrow> exn + frame"
  parse_date :: "cell \<Rightarrow> string + timestamp option"
  repr_fin :: "rat \<Rightarrow> string"

definition bind_exn :: "exn + 'a \<Rightarrow> ('a \<Rightarrow> exn + 'b) \<Rightarrow> exn + 'b" where
  "bind_exn m f = (case m of Inl e \<Rightarrow> Inl e | Inr x \<Rightarrow> f x)"

fun map_exn :: "('a \<Rightarrow> exn + 'b) \<Rightarrow> 'a list \<Rightarrow> exn + 'b list" where
  "map_exn f [] = Inr []"
| "map_exn f (x # xs) =
     (case f x of
        Inl e \<Rightarrow> Inl e
      | Inr y \<Rightarrow> (case map_exn f xs of Inl e \<Rightarrow> Inl e | Inr ys \<Rightarrow> Inr (y # ys)))"

definition read_csv :: "env \<Rightarrow> string \<Rightarrow> exn + frame" where
  "read_csv ev p =
     (case files ev p of None \<Rightarrow> Inl (FileNotFoundError p) | Some b \<Rightarrow> csv_parse ev b)"

definition read_excel :: "env \<Rightarrow> string \<Rightarrow> exn + frame" where
  "read_excel ev p =
     (case files ev p of None \<Rightarrow> Inl (FileNotFoundError p) | Some b \<Rightarrow> excel_parse ev b)"

definition date_cell :: "timestamp option \<Rightarrow> cell" where
  "date_cell d = (case d of None \<Rightarrow> CNaT | Some t \<Rightarrow> CDate t)"

definition to_datetime_cell :: "env \<Rightarrow> cell \<Rightarrow> exn + cell" where
  "to_datetime_cell ev c =
     (case parse_date ev c of Inl msg \<Rightarrow> Inl (ValueError msg) | Inr d \<Rightarrow> Inr (date_cell d))"

definition to_datetime :: "env \<Rightarrow> cell list \<Rightarrow> exn + cell list" where
  "to_datetime ev col = map_exn (to_datetime_cell ev) col"

text \<open>\<^verbatim>\<open>os.path.splitext(p)[1]\<close> (POSIX): from the last dot of the last path component, when a
  character other than a dot stands before it in that component.\<close>

definition basename :: "string \<Rightarrow> string" where
  "basename p = rev (takeWhile (\<lambda>c. c \<noteq> CHR ''/'') (rev p))"

definition splitext_ext :: "string \<Rightarrow> string" where
  "splitext_ext p =
     (let stem = dropWhile (\<lambda>c. c = CHR ''.'') (basename p)
      in if CHR ''.'' \<in> set stem
         then CHR ''.'' # rev (takeWhile (\<lambda>c. c \<noteq> CHR ''.'') (rev stem))
         else [])"

section \<open>\<^verbatim>\<open>TradingJournal.load_data\<close>\<close>

record journal =
  file_path :: string
  data :: frame

datatype style = Profit | Loss

record rendered =
  r_date :: string
  r_session :: string
  r_quantity :: string
  r_risk_reward :: string
  r_pnl_style :: style
  r_pnl_text :: string
  r_percent :: string
  r_comments :: string

text \<open>What the program prints on the console, one event per \<^verbatim>\<open>console.print\<close>.\<close>

datatype event =
    FileNotFoundWarning string
  | LoadErrorWarning exn
  | NoDataWarning
  | RowErrorWarning exn
  | ClearScreen
  | Banner
  | TablePrinted "rendered list"
  | SummaryHeader
  | TotalTrades int
  | ProfitableTrades int
  | LossMakingTrades int
  | WinRate style rat
  | TotalPnl style pyfloat
  | StatisticsErrorWarning exn

definition unsupported_format :: exn where
  "unsupported_format = ValueError ''Unsupported file format. Please use CSV or Excel files.''"

definition file_extension :: "string \<Rightarrow> string" where
  "file_extension p = py_lower (splitext_ext p)"

definition convert_dates :: "env \<Rightarrow> frame \<Rightarrow> exn + frame" where
  "convert_dates ev fr =
     (if ''date'' \<in> set (columns fr)
      then bind_exn (get_column fr ''date'')
             (\<lambda>col. bind_exn (to_datetime ev col) (\<lambda>ds. Inr (set_column fr ''date'' ds)))
      else Inr fr)"

text \<open>The body of the \<^verbatim>\<open>try\<close> of \<^verbatim>\<open>load_data\<close>: the frame assigned to
  \<^verbatim>\<open>self.data\<close>, or the exception raised.\<close>

definition read_file :: "env \<Rightarrow> string \<Rightarrow> exn + frame" where
  "read_file ev p =
     (let ext = file_extension p
      in if ext = ''.csv'' then read_csv ev p
         else if ext \<in> set [''.xlsx'', ''.xls''] then read_excel ev p
         else Inl unsupported_format)"

definition load_body :: "env \<Rightarrow> string \<Rightarrow> exn + frame" where
  "load_body ev p = bind_exn (read_file ev p) (convert_dates ev)"

text \<open>The handlers: \<^verbatim>\<open>except FileNotFoundError\<close> first, then \<^verbatim>\<open>except Exception\<close>. Both
  print a warning and set \<^verbatim>\<open>self.data = pd.DataFrame()\<close>.\<close>

fun load_handler :: "string \<Rightarrow> exn \<Rightarrow> event" where
  "load_handler p (FileNotFoundError q) = FileNotFoundWarning p"
| "load_handler p e = LoadErrorWarning e"

definition load_data :: "env \<Rightarrow> string \<Rightarrow> event list \<times> journal" where
  "load_data ev p =
     (case load_body ev p of
        Inl e \<Rightarrow> ([load_handler p e], \<lparr>file_path = p, data = empty_frame\<rparr>)
      | Inr fr \<Rightarrow> ([], \<lparr>file_path = p, data = fr\<rparr>))"

section \<open>\<^verbatim>\<open>TradingJournal.display_trades\<close>\<close>

text \<open>\<^verbatim>\<open>pnl_str.replace('$', '').replace(',', '')\<close>.\<close>

definition strip_currency :: "string \<Rightarrow> string" where
  "strip_currency s = remove_char CHR '','' (remove_char CHR ''$'' s)"


definition pnl_style_of :: "pyfloat \<Rightarrow> style" where
  "pnl_style_of pnl_value = (if ge0 pnl_value then Profit else Loss)"

text \<open>Lines 73 and 74 on a row: the text shown for the PnL and its parsed value.\<close>

definition row_pnl :: "(rat \<Rightarrow> string) \<Rightarrow> string list \<Rightarrow> cell list \<Rightarrow> exn + string \<times> pyfloat" where
  "row_pnl rf cols row =
     bind_exn (row_get cols row ''PnL'') (\<lambda>pnl.
     let pnl_str = py_strip (py_str rf pnl) in
     bind_exn (py_float (strip_currency pnl_str)) (\<lambda>pnl_value.
     Inr (pnl_str, pnl_value)))"

text \<open>The body of the \<^verbatim>\<open>try\<close> in the row loop, in the order Python evaluates it.\<close>

definition render_row :: "(rat \<Rightarrow> string) \<Rightarrow> string list \<Rightarrow> cell list \<Rightarrow> exn + rendered" where
  "render_row rf cols row =
     bind_exn (row_pnl rf cols row) (\<lambda>(pnl_str, pnl_value).
     let pnl_style = pnl_style_of pnl_value in
     bind_exn (row_get cols row ''date'') (\<lambda>d.
     bind_exn (strftime d) (\<lambda>date_text.
     bind_exn (row_get cols row ''trading session'') (\<lambda>session.
     bind_exn (row_get cols row ''quantity'') (\<lambda>quantity.
     bind_exn (row_get cols row ''risk:reward'') (\<lambda>rr.
     bind_exn (row_get cols row ''percentage change'') (\<lambda>pct.
     bind_exn (row_get cols row ''comments'') (\<lambda>comments.
     Inr \<lparr>r_date = date_text,
          r_session = py_str rf session,
          r_quantity = py_str rf quantity,
          r_risk_reward = py_str rf rr,
          r_pnl_style = pnl_style,
          r_pnl_text = pnl_str,
          r_percent = py_str rf pct @ ''%'',
          r_comments = py_str rf comments\<rparr>))))))))"

fun lefts :: "('a + 'b) list \<Rightarrow> 'a list" where
  "lefts [] = []"
| "lefts (Inl a # xs) = a # lefts xs"
| "lefts (Inr b # xs) = lefts xs"

fun rights :: "('a + 'b) list \<Rightarrow> 'b list" where
  "rights [] = []"
| "rights (Inl a # xs) = rights xs"
| "rights (Inr b # xs) = b # rights xs"

section \<open>\<^verbatim>\<open>TradingJournal.display_summary\<close>\<close>

text \<open>
  The \<^verbatim>\<open>.str\<close> accessor raises AttributeError unless the column holds a string;
  \<^verbatim>\<open>.str.replace\<close> rewrites the strings and turns every other value into NaN;
  \<^verbatim>\<open>.astype(float)\<close> converts value by value and raises at the first string that
  \<^verbatim>\<open>float\<close> rejects.
\<close>

fun is_str :: "cell \<Rightarrow> bool" where
  "is_str (CStr s) = True"
| "is_str _ = False"

definition str_accessor :: "cell list \<Rightarrow> exn + cell list" where
  "str_accessor col =
     (if list_ex is_str col then Inr col
      else Inl (AttributeError ''Can only use .str accessor with string values!''))"

fun str_replace_cell :: "char \<Rightarrow> cell \<Rightarrow> cell" where
  "str_replace_cell x (CStr s) = CStr (remove_char x s)"
| "str_replace_cell x c = CFloat NaN"

definition str_replace :: "char \<Rightarrow> cell list \<Rightarrow> exn + cell list" where
  "str_replace x col = bind_exn (str_accessor col) (\<lambda>c. Inr (map (str_replace_cell x) c))"

fun float_of_cell :: "cell \<Rightarrow> exn + pyfloat" where
  "float_of_cell (CStr s) = py_float s"
| "float_of_cell (CInt i) = Inr (Fin (of_int i))"
| "float_of_cell (CFloat v) = Inr v"
| "float_of_cell (CDate t) = Inl (OtherException ''float() argument must be a string or a real number'')"
| "float_of_cell CNaT = Inl (OtherException ''float() argument must be a string or a real number'')"

definition astype_float :: "cell list \<Rightarrow> exn + pyfloat list" where
  "astype_float col = map_exn float_of_cell col"

text \<open>Line 107.\<close>

definition pnl_values :: "frame \<Rightarrow> exn + pyfloat list" where
  "pnl_values fr =
     bind_exn (get_column fr ''PnL'') (\<lambda>col.
     bind_exn (str_replace CHR ''$'' col) (\<lambda>col1.
     bind_exn (str_replace CHR '','' col1) astype_float))"

text \<open>What line 107 makes of one cell of the column.\<close>

definition column_value :: "cell \<Rightarrow> exn + pyfloat" where
  "column_value c = float_of_cell (str_replace_cell CHR '','' (str_replace_cell CHR ''$'' c))"

fun is_finite :: "pyfloat \<Rightarrow> bool" where
  "is_finite (Fin q) = True"
| "is_finite _ = False"


text \<open>\<^verbatim>\<open>Series.sum()\<close> skips NaN.\<close>

definition series_sum :: "pyfloat list \<Rightarrow> pyfloat" where
  "series_sum vals = foldl fadd (Fin 0) (filter (\<lambda>v. \<not> isnan v) vals)"

definition total_trades :: "frame \<Rightarrow> int" where
  "total_trades fr = int (length (rows fr))"

definition profitable_trades :: "pyfloat list \<Rightarrow> int" where
  "profitable_trades vals = int (length (filter gt0 vals))"

definition true_div :: "int \<Rightarrow> int \<Rightarrow> exn + rat" where
  "true_div a b = (if b = 0 then Inl ZeroDivisionError else Inr (of_int a / of_int b))"

definition win_rate_style :: "rat \<Rightarrow> style" where
  "win_rate_style win_rate = (if 50 \<le> win_rate then Profit else Loss)"

definition summary_events :: "frame \<Rightarrow> event list" where
  "summary_events fr =
     (let total = total_trades fr in
      case pnl_values fr of
        Inl e \<Rightarrow> [StatisticsErrorWarning e]
      | Inr vals \<Rightarrow>
          let profitable = profitable_trades vals in
          [SummaryHeader, TotalTrades total, ProfitableTrades profitable,
           LossMakingTrades (total - profitable)] @
          (if 0 < total then
             (case true_div profitable total of
                Inl e \<Rightarrow> [StatisticsErrorWarning e]
              | Inr r \<Rightarrow>
                  let win_rate = r * 100 in
                  [WinRate (win_rate_style win_rate) win_rate,
                   TotalPnl (pnl_style_of (series_sum vals)) (series_sum vals)])
           else []))"

text \<open>Neither method assigns to \<^verbatim>\<open>self\<close>: each returns the journal it was given.\<close>

definition display_summary :: "journal \<Rightarrow> event list \<times> journal" where
  "display_summary j = (if \<not> frame_empty (data j) then (summary_events (data j), j) else ([], j))"

definition row_results :: "(rat \<Rightarrow> string) \<Rightarrow> frame \<Rightarrow> (exn + rendered) list" where
  "row_results rf fr = map (render_row rf (columns fr)) (rows fr)"

definition display_trades :: "(rat \<Rightarrow> string) \<Rightarrow> journal \<Rightarrow> event list \<times> journal" where
  "display_trades rf j =
     (if frame_empty (data j) then ([NoDataWarning], j)
      else
        let results = row_results rf (data j);
            (summary, j') = display_summary j
        in (map RowErrorWarning (lefts results) @
            [ClearScreen, Banner, TablePrinted (rights results)] @ summary, j'))"

section \<open>Example journals\<close>

text \<open>A date parser for the examples: ISO dates, blank cells as NaT.\<close>

definition iso_date :: "cell \<Rightarrow> string + timestamp option" where
  "iso_date c =
     (case c of
        CStr s \<Rightarrow>
          if length s = 10 \<and> s ! 4 = CHR ''-'' \<and> s ! 7 = CHR ''-'' \<and>
             list_all is_digit (take 4 s @ take 2 (drop 5 s) @ drop 8 s)
          then Inr (Some (Timestamp (digits_val (take 4 s)) (digits_val (take 2 (drop 5 s)))
                            (digits_val (drop 8 s))))
          else Inl s
      | CInt i \<Rightarrow> Inl (str_int i)
      | CFloat v \<Rightarrow> (if isnan v then Inr None else Inl ''float'')
      | CDate t \<Rightarrow> Inr (Some t)
      | CNaT \<Rightarrow> Inr None)"

definition journal_columns :: "string list" where
  "journal_columns =
     [''date'', ''trading session'', ''quantity'', ''risk:reward'', ''PnL'',
      ''percentage change'', ''comments'']"

definition trade :: "string \<Rightarrow> cell \<Rightarrow> cell list" where
  "trade d pnl = [CStr d, CStr ''London'', CInt 1, CStr ''1:2'', pnl, CInt 2, CFloat NaN]"

text \<open>The end-to-end scenario of the specification.\<close>

definition scenario_frame :: frame where
  "scenario_frame =
     \<lparr>columns = journal_columns,
      rows = [trade ''2024-01-01'' (CStr ''$100''), trade ''2024-01-02'' (CStr ''-$50''),
              trade ''2024-01-03'' (CStr ''$0'')]\<rparr>"

text \<open>A journal with a row whose PnL is the text \<^verbatim>\<open>abc\<close>.\<close>

definition malformed_frame :: frame where
  "malformed_frame =
     \<lparr>columns = journal_columns,
      rows = [trade ''2024-01-01'' (CStr ''$100''), trade ''2024-01-02'' (CStr ''abc''),
              trade ''2024-01-03'' (CStr ''-$50'')]\<rparr>"

text \<open>A journal with a blank PnL cell.\<close>

definition blank_frame :: frame where
  "blank_frame =
     \<lparr>columns = journal_columns,
      rows = [trade ''2024-01-01'' (CStr ''$100''), trade ''2024-01-02'' (CFloat NaN)]\<rparr>"

text \<open>A journal whose PnL values are plain numbers.\<close>

definition numeric_frame :: frame where
  "numeric_frame =
     \<lparr>columns = journal_columns,
      rows = [trade ''2024-01-01'' (CInt 100), trade ''2024-01-02'' (CInt (- 50))]\<rparr>"

text \<open>A journal with a date that cannot be parsed.\<close>

definition bad_date_frame :: frame where
  "bad_date_frame =
     \<lparr>columns = journal_columns,
      rows = [trade ''2024-01-01'' (CStr ''$100''), trade ''yesterday'' (CStr ''-$50'')]\<rparr>"

definition example_parse :: "string \<Rightarrow> exn + frame" where
  "example_parse b =
     (if b = ''scenario'' then Inr scenario_frame
      else if b = ''malformed'' then Inr malformed_frame
      else if b = ''blank'' then Inr blank_frame
      else if b = ''numeric'' then Inr numeric_frame
      else if b = ''bad date'' then Inr bad_date_frame
      else Inl (OtherException b))"

definition example_files :: "string \<Rightarrow> string option" where
  "example_files p =
     (if p = ''trading_journal.csv'' then Some ''scenario''
      else if p = ''malformed.csv'' then Some ''malformed''
      else if p = ''blank.csv'' then Some ''blank''
      else if p = ''numeric.CSV'' then Some ''numeric''
      else if p = ''bad_date.xlsx'' then Some ''bad date''
      else None)"

definition example_env :: env where
  "example_env =
     \<lparr>files = example_files,
      csv_parse = example_parse,
      excel_parse = example_parse,
      parse_date = iso_date,
      repr_fin = (\<lambda>q. ''0.0'')\<rparr>"

definition scenario_journal :: journal where
  "scenario_journal = snd (load_data example_env ''trading_journal.csv'')"


definition blank_journal :: journal where
  "blank_journal = snd (load_data example_env ''blank.csv'')"

definition numeric_journal :: journal where
  "numeric_journal = snd (load_data example_env ''numeric.CSV'')"

text \<open>A cell that holds a plain number: an integer or a finite float.\<close>

fun is_plain_number :: "cell \<Rightarrow> bool" where
  "is_plain_number (CInt i) = True"
| "is_plain_number (CFloat v) = is_finite v"
| "is_plain_number _ = False"

section \<open>The parser of the specification\<close>




section \<open>Loading\<close>

lemma load_data_cases:
  "load_data ev p =
     (case load_body ev p of
        Inl e \<Rightarrow> ([load_handler p e], \<lparr>file_path = p, data = empty_frame\<rparr>)
      | Inr fr \<Rightarrow> ([], \<lparr>file_path = p, data = fr\<rparr>))"
  by (simp add: load_data_def)

lemma read_file_unsupported:
  assumes "file_extension p \<notin> set [''.csv'', ''.xlsx'', ''.xls'']"
  shows "read_file ev p = Inl unsupported_format"
  using assms by (simp add: read_file_def)





text \<open>
  Claim C7, as stated: an unsupported extension is reported as a kind of its own, not as
  the generic load error. It fails: the ValueError raised for the extension is caught by
  the generic \<^verbatim>\<open>except Exception\<close> handler, which prints the same load-error warning as
  for any other failure of the load.
\<close>

theorem load_txt_is_generic_load_error:
  "file_extension ''notes.txt'' = ''.txt'' \<and>
   fst (load_data example_env ''notes.txt'') =
     [LoadErrorWarning (ValueError ''Unsupported file format. Please use CSV or Excel files.'')]"
  by code_simp

text \<open>
  Claim C7, amended: for every path whose extension, lower-cased, is not \<^verbatim>\<open>.csv\<close>,
  \<^verbatim>\<open>.xlsx\<close> or \<^verbatim>\<open>.xls\<close>, \<^verbatim>\<open>load_data\<close> prints the generic load-error warning, carrying
  the ValueError with the fixed message of the unsupported format, and leaves an empty
  frame, whatever the files are.
\<close>

theorem load_unsupported_extension:
  assumes "file_extension p \<notin> set [''.csv'', ''.xlsx'', ''.xls'']"
  shows "load_data ev p =
     ([LoadErrorWarning (ValueError ''Unsupported file format. Please use CSV or Excel files.'')],
      \<lparr>file_path = p, data = empty_frame\<rparr>)"
  using read_file_unsupported [OF assms, of ev]
  by (simp add: load_data_cases load_body_def bind_exn_def unsupported_format_def)

theorem load_unsupported_extension_witness:
  "file_extension ''Journal.TXT'' \<notin> set [''.csv'', ''.xlsx'', ''.xls''] \<and>
   load_data example_env ''Journal.TXT'' =
     ([LoadErrorWarning (ValueError ''Unsupported file format. Please use CSV or Excel files.'')],
      \<lparr>file_path = ''Journal.TXT'', data = empty_frame\<rparr>)"
proof -
  have h: "file_extension ''Journal.TXT'' \<notin> set [''.csv'', ''.xlsx'', ''.xls'']"
    by code_simp
  from load_unsupported_extension [OF h, of example_env] h show ?thesis
    by blast
qed

section \<open>Trimming and the currency marks\<close>













section \<open>The summary statistics\<close>

lemma map_exn_map: "map_exn f (map g xs) = map_exn (\<lambda>x. f (g x)) xs"
  by (induction xs) (auto split: sum.splits)


lemma map_exn_Inr:
  "map_exn f xs = Inr ys \<Longrightarrow>
     ys = map (\<lambda>x. projr (f x)) xs \<and> list_all (\<lambda>x. \<not> isl (f x)) xs"
  by (induction xs arbitrary: ys) (auto split: sum.splits)


lemma is_str_replace: "is_str (str_replace_cell x c) = is_str c"
  by (cases c) auto

lemma list_ex_is_str_replace:
  "list_ex is_str (map (str_replace_cell x) col) = list_ex is_str col"
  by (induction col) (auto simp: is_str_replace)

lemma pnl_values_eq:
  "pnl_values fr =
     bind_exn (get_column fr ''PnL'') (\<lambda>col.
       if list_ex is_str col then map_exn column_value col
       else Inl (AttributeError ''Can only use .str accessor with string values!''))"
proof -
  have "(\<lambda>x. float_of_cell (str_replace_cell CHR '','' (str_replace_cell CHR ''$'' x))) = column_value"
    by (simp add: column_value_def fun_eq_iff)
  then show ?thesis
    by (auto simp add: pnl_values_def bind_exn_def str_replace_def str_accessor_def
        astype_float_def map_exn_map list_ex_is_str_replace split: sum.splits)
qed



lemma nonempty_total: "\<not> frame_empty fr \<Longrightarrow> 0 < total_trades fr"
  by (simp add: frame_empty_def total_trades_def)

lemma pnl_values_length:
  "pnl_values fr = Inr vals \<Longrightarrow> length vals = length (rows fr)"
  by (auto simp add: pnl_values_eq bind_exn_def get_column_def dest!: map_exn_Inr split: sum.splits option.splits if_splits)

lemma map_exn_Inl: "map_exn f xs = Inl e \<Longrightarrow> \<exists>x\<in>set xs. f x = Inl e"
  by (induction xs) (auto split: sum.splits)

lemma py_float_error: "py_float s = Inl e \<Longrightarrow> e = ValueError s"
  by (auto simp add: py_float_def Let_def split: option.splits if_splits)

lemma column_value_error: "column_value c = Inl e \<Longrightarrow> e \<noteq> ZeroDivisionError"
  by (cases c) (auto simp add: column_value_def dest: py_float_error)

lemma pnl_values_error:
  assumes "pnl_values fr = Inl e"
  shows "e \<noteq> ZeroDivisionError"
proof (cases "get_column fr ''PnL''")
  case (Inl k)
  then have "e = KeyError ''PnL''"
    using assms by (auto simp add: pnl_values_eq bind_exn_def get_column_def split: option.splits)
  then show ?thesis by simp
next
  case (Inr col)
  show ?thesis
  proof (cases "list_ex is_str col")
    case True
    with Inr assms have "map_exn column_value col = Inl e"
      by (simp add: pnl_values_eq bind_exn_def)
    then show ?thesis by (auto dest!: map_exn_Inl column_value_error)
  next
    case False
    with Inr assms show ?thesis by (auto simp add: pnl_values_eq bind_exn_def)
  qed
qed



text \<open>
  Claim C4: the win rate is \<open>profitable / total * 100\<close> and is printed only when the
  total is positive; for an empty frame the summary prints nothing, so no win rate; and
  for no journal does the summary report a division by zero.
\<close>

theorem summary_no_division_by_zero:
  "StatisticsErrorWarning ZeroDivisionError \<notin> set (fst (display_summary j)) \<and>
   (frame_empty (data j) \<longrightarrow> fst (display_summary j) = []) \<and>
   (WinRate st w \<in> set (fst (display_summary j)) \<longrightarrow>
      0 < total_trades (data j) \<and>
      (\<exists>vals. pnl_values (data j) = Inr vals \<and>
         w = of_int (profitable_trades vals) / of_int (total_trades (data j)) * 100))"
proof (cases "frame_empty (data j)")
  case True
  then show ?thesis by (simp add: display_summary_def)
next
  case False
  then have t: "0 < total_trades (data j)" by (rule nonempty_total)
  show ?thesis
  proof (cases "pnl_values (data j)")
    case (Inl e)
    have "e \<noteq> ZeroDivisionError" using Inl by (rule pnl_values_error)
    with Inl False show ?thesis 
      by (simp add: display_summary_def summary_events_def Let_def)
  next
    case (Inr vals)
    with False t show ?thesis
      by (simp add: display_summary_def summary_events_def Let_def true_div_def)
  qed
qed

theorem summary_no_division_by_zero_witness:
  "WinRate Loss (100 / 3) \<in> set (fst (display_summary scenario_journal)) \<and>
   0 < total_trades (data scenario_journal) \<and>
   StatisticsErrorWarning ZeroDivisionError \<notin> set (fst (display_summary scenario_journal)) \<and>
   frame_empty (data \<lparr>file_path = ''x.csv'', data = empty_frame\<rparr>) \<and>
   fst (display_summary \<lparr>file_path = ''x.csv'', data = empty_frame\<rparr>) = []"
proof -
  have h1: "WinRate Loss (100 / 3) \<in> set (fst (display_summary scenario_journal))"
    by code_simp
  have h2: "frame_empty (data \<lparr>file_path = ''x.csv'', data = empty_frame\<rparr>)"
    by code_simp
  from summary_no_division_by_zero [of scenario_journal Loss "100 / 3"] h1
    summary_no_division_by_zero [of "\<lparr>file_path = ''x.csv'', data = empty_frame\<rparr>" Loss 0] h2
  show ?thesis by blast
qed

section \<open>Displaying\<close>

text \<open>
  Claim C9: the summary is a function of the journal, so computing it twice on the same
  journal gives the same events; and neither \<^verbatim>\<open>display_summary\<close> nor
  \<^verbatim>\<open>display_trades\<close> changes the journal: each returns the journal it was given, and the
  summary computed after either of them is the summary computed before.
\<close>

theorem display_leaves_journal_unchanged:
  "snd (display_summary j) = j \<and>
   snd (display_trades rf j) = j \<and>
   display_summary (snd (display_summary j)) = display_summary j \<and>
   display_summary (snd (display_trades rf j)) = display_summary j"
  by (simp add: display_summary_def display_trades_def Let_def split: prod.splits)

theorem display_leaves_journal_unchanged_witness:
  "snd (display_summary scenario_journal) = scenario_journal \<and>
   snd (display_trades (repr_fin example_env) scenario_journal) = scenario_journal \<and>
   display_summary (snd (display_summary scenario_journal)) = display_summary scenario_journal \<and>
   display_summary (snd (display_trades (repr_fin example_env) scenario_journal)) =
     display_summary scenario_journal"
  by (rule display_leaves_journal_unchanged)

section \<open>Rows and the summary\<close>








lemma ge0_iff: "ge0 v = (\<not> (lt0 v \<or> isnan v))"
  by (cases v) auto

lemma summary_events_styles:
  "(WinRate st w \<in> set (summary_events fr) \<longrightarrow> st = win_rate_style w) \<and>
   (TotalPnl st' t \<in> set (summary_events fr) \<longrightarrow> st' = pnl_style_of t)"
  by (auto simp add: summary_events_def Let_def split: sum.splits if_splits)

text \<open>
  Claim C5, as stated: only a strictly negative PnL is classified unfavourable. It fails
  for a blank PnL cell: its text is \<^verbatim>\<open>nan\<close>, which \<^verbatim>\<open>float\<close> converts to NaN; NaN is not
  \<open>\<ge> 0\<close>, so the row is rendered in the loss style although its value is not negative.
\<close>

theorem blank_pnl_row_is_loss:
  "row_pnl (repr_fin example_env) (columns (data blank_journal)) (rows (data blank_journal) ! 1) =
     Inr (''nan'', NaN) \<and>
   map r_pnl_style (rights (row_results (repr_fin example_env) (data blank_journal))) =
     [Profit, Loss] \<and>
   \<not> lt0 NaN"
  by code_simp

text \<open>
  Claim C5, amended: a rendered row is favourable exactly when its parsed PnL is \<open>\<ge> 0\<close>
  and unfavourable otherwise, that is when it is strictly negative or NaN; a win rate
  is favourable exactly when it is \<open>\<ge> 50\<close>, otherwise unfavourable; a total PnL is
  favourable exactly when it is \<open>\<ge> 0\<close>, otherwise unfavourable; so a PnL of zero is
  favourable although it is not counted as profitable.
\<close>

theorem classification_thresholds:
  "(render_row rf cols row = Inr r \<longrightarrow>
      (\<exists>s v. row_pnl rf cols row = Inr (s, v) \<and>
         (r_pnl_style r = Profit \<longleftrightarrow> ge0 v) \<and>
         (r_pnl_style r = Loss \<longleftrightarrow> lt0 v \<or> isnan v))) \<and>
   (WinRate st w \<in> set (fst (display_summary j)) \<longrightarrow>
      (st = Profit \<longleftrightarrow> 50 \<le> w) \<and> (st = Loss \<longleftrightarrow> w < 50)) \<and>
   (TotalPnl st' t \<in> set (fst (display_summary j)) \<longrightarrow>
      (st' = Profit \<longleftrightarrow> ge0 t) \<and> (st' = Loss \<longleftrightarrow> \<not> ge0 t)) \<and>
   pnl_style_of (Fin 0) = Profit \<and> profitable_trades [Fin 0] = 0"
proof (intro conjI impI)
  assume a: "render_row rf cols row = Inr r"
  then obtain s v where sv: "row_pnl rf cols row = Inr (s, v)"
    by (cases "row_pnl rf cols row") (auto simp add: render_row_def bind_exn_def)
  with a have "r_pnl_style r = pnl_style_of v"
    by (auto simp add: render_row_def bind_exn_def Let_def split: sum.splits)
  then have "(r_pnl_style r = Profit \<longleftrightarrow> ge0 v) \<and> (r_pnl_style r = Loss \<longleftrightarrow> lt0 v \<or> isnan v)"
    by (auto simp add: pnl_style_of_def ge0_iff)
  with sv show "\<exists>s v. row_pnl rf cols row = Inr (s, v) \<and>
         (r_pnl_style r = Profit \<longleftrightarrow> ge0 v) \<and>
         (r_pnl_style r = Loss \<longleftrightarrow> lt0 v \<or> isnan v)"
    by blast
next
  assume "WinRate st w \<in> set (fst (display_summary j))"
  then have s: "st = win_rate_style w"
    using summary_events_styles [of st w "data j"]
    by (auto simp add: display_summary_def split: if_splits)
  show "st = Profit \<longleftrightarrow> 50 \<le> w" using s by (simp add: win_rate_style_def)
  show "st = Loss \<longleftrightarrow> w < 50" using s by (auto simp add: win_rate_style_def)
next
  assume "TotalPnl st' t \<in> set (fst (display_summary j))"
  then have s: "st' = pnl_style_of t"
    using summary_events_styles [of _ _ "data j" st' t]
    by (auto simp add: display_summary_def split: if_splits)
  show "st' = Profit \<longleftrightarrow> ge0 t" using s by (simp add: pnl_style_of_def)
  show "st' = Loss \<longleftrightarrow> \<not> ge0 t" using s by (simp add: pnl_style_of_def)
next
  show "pnl_style_of (Fin 0) = Profit" by (simp add: pnl_style_of_def)
  show "profitable_trades [Fin 0] = 0" by (simp add: profitable_trades_def)
qed

theorem classification_thresholds_witness:
  "render_row (repr_fin example_env) (columns (data scenario_journal))
      (rows (data scenario_journal) ! 2) =
     Inr (projr (render_row (repr_fin example_env) (columns (data scenario_journal))
        (rows (data scenario_journal) ! 2))) \<and>
   row_pnl (repr_fin example_env) (columns (data scenario_journal))
      (rows (data scenario_journal) ! 2) = Inr (''$0'', Fin 0) \<and>
   r_pnl_style (projr (render_row (repr_fin example_env) (columns (data scenario_journal))
        (rows (data scenario_journal) ! 2))) = Profit \<and>
   WinRate Loss (100 / 3) \<in> set (fst (display_summary scenario_journal)) \<and>
   TotalPnl Profit (Fin 50) \<in> set (fst (display_summary scenario_journal)) \<and>
   ge0 (Fin 50)"
proof -
  let ?r = "render_row (repr_fin example_env) (columns (data scenario_journal))
      (rows (data scenario_journal) ! 2)"
  have h1: "?r = Inr (projr ?r)"
    by code_simp
  have h2: "row_pnl (repr_fin example_env) (columns (data scenario_journal))
      (rows (data scenario_journal) ! 2) = Inr (''$0'', Fin 0)"
    by code_simp
  have h3: "WinRate Loss (100 / 3) \<in> set (fst (display_summary scenario_journal))"
    by code_simp
  have h4: "TotalPnl Profit (Fin 50) \<in> set (fst (display_summary scenario_journal))"
    by code_simp
  have "\<exists>s v. row_pnl (repr_fin example_env) (columns (data scenario_journal))
      (rows (data scenario_journal) ! 2) = Inr (s, v) \<and>
      (r_pnl_style (projr ?r) = Profit \<longleftrightarrow> ge0 v)"
    using classification_thresholds [of "repr_fin example_env" "columns (data scenario_journal)"
      "rows (data scenario_journal) ! 2" "projr ?r" Loss "100 / 3" scenario_journal Profit "Fin 50"]
      h1 by blast
  then have h5: "r_pnl_style (projr ?r) = Profit"
    using h2 by auto
  show ?thesis using h1 h2 h3 h4 h5 by simp
qed

section \<open>The date column\<close>








section \<open>A numeric PnL column\<close>

lemma summary_without_strings:
  assumes "\<not> frame_empty (data j)" and "get_column (data j) ''PnL'' = Inr col"
    and "\<not> list_ex is_str col"
  shows "fst (display_summary j) =
    [StatisticsErrorWarning (AttributeError ''Can only use .str accessor with string values!'')]"
  using assms by (simp add: display_summary_def summary_events_def pnl_values_eq bind_exn_def)

lemma plain_number_not_str: "list_all is_plain_number col \<Longrightarrow> \<not> list_ex is_str col"
  by (induction col) (auto elim: is_plain_number.elims)

text \<open>
  Claim C10: there is a loaded journal whose PnL values are all plain numbers, so that
  every row is rendered, and whose summary nevertheless fails and prints one error: the
  \<^verbatim>\<open>.str\<close> accessor of line 107 needs a column that holds strings. This is so for every
  non-empty journal whose PnL column holds plain numbers only.
\<close>

theorem numeric_pnl_column:
  "(\<exists>ev p j col.
      load_data ev p = ([], j) \<and> \<not> frame_empty (data j) \<and>
      get_column (data j) ''PnL'' = Inr col \<and> list_all is_plain_number col \<and>
      lefts (row_results (repr_fin ev) (data j)) = [] \<and>
      length (rights (row_results (repr_fin ev) (data j))) = length (rows (data j)) \<and>
      fst (display_summary j) =
        [StatisticsErrorWarning
           (AttributeError ''Can only use .str accessor with string values!'')]) \<and>
   (\<forall>j col.
      \<not> frame_empty (data j) \<and> get_column (data j) ''PnL'' = Inr col \<and>
      list_all is_plain_number col \<longrightarrow>
      fst (display_summary j) =
        [StatisticsErrorWarning
           (AttributeError ''Can only use .str accessor with string values!'')])"
proof (intro conjI allI impI)
  fix j :: journal and col :: "cell list"
  assume "\<not> frame_empty (data j) \<and> get_column (data j) ''PnL'' = Inr col \<and>
      list_all is_plain_number col"
  then show "fst (display_summary j) =
        [StatisticsErrorWarning
           (AttributeError ''Can only use .str accessor with string values!'')]"
    using summary_without_strings plain_number_not_str by blast
next
  have h: "load_data example_env ''numeric.CSV'' = ([], numeric_journal) \<and>
      \<not> frame_empty (data numeric_journal) \<and>
      get_column (data numeric_journal) ''PnL'' = Inr [CInt 100, CInt (- 50)] \<and>
      list_all is_plain_number [CInt 100, CInt (- 50)] \<and>
      lefts (row_results (repr_fin example_env) (data numeric_journal)) = [] \<and>
      length (rights (row_results (repr_fin example_env) (data numeric_journal))) =
        length (rows (data numeric_journal)) \<and>
      fst (display_summary numeric_journal) =
        [StatisticsErrorWarning
           (AttributeError ''Can only use .str accessor with string values!'')]"
    by code_simp
  then show "\<exists>ev p j col.
      load_data ev p = ([], j) \<and> \<not> frame_empty (data j) \<and>
      get_column (data j) ''PnL'' = Inr col \<and> list_all is_plain_number col \<and>
      lefts (row_results (repr_fin ev) (data j)) = [] \<and>
      length (rights (row_results (repr_fin ev) (data j))) = length (rows (data j)) \<and>
      fst (display_summary j) =
        [StatisticsErrorWarning
           (AttributeError ''Can only use .str accessor with string values!'')]"
    by blast
qed

theorem numeric_pnl_column_witness:
  "\<not> frame_empty (data numeric_journal) \<and>
   get_column (data numeric_journal) ''PnL'' = Inr [CInt 100, CInt (- 50)] \<and>
   list_all is_plain_number [CInt 100, CInt (- 50)] \<and>
   map r_pnl_text (rights (row_results (repr_fin example_env) (data numeric_journal))) =
     [''100'', ''-50''] \<and>
   fst (display_summary numeric_journal) =
     [StatisticsErrorWarning
        (AttributeError ''Can only use .str accessor with string values!'')]"
proof -
  have h: "\<not> frame_empty (data numeric_journal) \<and>
      get_column (data numeric_journal) ''PnL'' = Inr [CInt 100, CInt (- 50)] \<and>
      list_all is_plain_number [CInt 100, CInt (- 50)]"
    by code_simp
  have r: "map r_pnl_text (rights (row_results (repr_fin example_env) (data numeric_journal))) =
     [''100'', ''-50'']"
    by code_simp
  from numeric_pnl_column h r show ?thesis
    by blast
qed

section \<open>The PnL parser\<close>






















end
